theory Spec2Isabelle
  imports Complex_Main "HOL-Library.Sublist"
begin

section \<open>Dispute SML model: data model\<close>

text \<open>
  Shallow embedding of \<^verbatim>\<open>scripts/sml/dispute_sml_model.py\<close>.
  Python integers are \<^typ>\<open>int\<close>. NumPy floating-point numbers are idealised as
  \<^typ>\<open>real\<close>: rounding, overflow and NaN are not represented, so every statement
  below about numeric results is a statement about exact arithmetic.
\<close>

datatype py_error = IndexError | ValueError | TypeError

text \<open>\<^verbatim>\<open>class DisputeCategory(IntEnum)\<close>: the members compare equal to their codes.\<close>

definition NON_DELIVERY :: int where "NON_DELIVERY = 0"
definition QUALITY_ISSUE :: int where "QUALITY_ISSUE = 1"
definition NOT_AS_DESCRIBED :: int where "NOT_AS_DESCRIBED = 2"
definition LATE_DELIVERY :: int where "LATE_DELIVERY = 3"
definition COMMUNICATION_ISSUE :: int where "COMMUNICATION_ISSUE = 4"
definition MALICIOUS_CONTENT :: int where "MALICIOUS_CONTENT = 5"
definition PAYMENT_DISPUTE :: int where "PAYMENT_DISPUTE = 6"
definition OTHER :: int where "OTHER = 7"

text \<open>\<^verbatim>\<open>class JuryVerdict(IntEnum)\<close>; \<^verbatim>\<open>JuryVerdict(i)\<close> raises ValueError outside 0..5.\<close>

datatype JuryVerdict = PENDING | PARTY_A_WINS | PARTY_B_WINS | SPLIT | PARTIAL_A | PARTIAL_B

definition JuryVerdict_of :: "int \<Rightarrow> py_error + JuryVerdict" where
  "JuryVerdict_of i =
     (if i = 0 then Inr PENDING
      else if i = 1 then Inr PARTY_A_WINS
      else if i = 2 then Inr PARTY_B_WINS
      else if i = 3 then Inr SPLIT
      else if i = 4 then Inr PARTIAL_A
      else if i = 5 then Inr PARTIAL_B
      else Inl ValueError)"

fun JuryVerdict_name :: "JuryVerdict \<Rightarrow> string" where
  "JuryVerdict_name PENDING = ''PENDING''"
| "JuryVerdict_name PARTY_A_WINS = ''PARTY_A_WINS''"
| "JuryVerdict_name PARTY_B_WINS = ''PARTY_B_WINS''"
| "JuryVerdict_name SPLIT = ''SPLIT''"
| "JuryVerdict_name PARTIAL_A = ''PARTIAL_A''"
| "JuryVerdict_name PARTIAL_B = ''PARTIAL_B''"

record SmlTrainingData =
  case_id :: string
  job_category :: int
  dispute_category :: int
  amount_tier :: int
  evidence_quality_a :: int
  evidence_quality_b :: int
  response_time_a :: int
  response_time_b :: int
  prior_disputes_a :: int
  prior_disputes_b :: int
  votes :: "bool list"
  confidences :: "int list"
  final_verdict :: int
  auto_resolved :: bool
  consensus_strength :: int

text \<open>\<^verbatim>\<open>SmlTrainingData.to_feature_vector\<close>: \<^verbatim>\<open>/\<close> is true division.\<close>

definition to_feature_vector :: "SmlTrainingData \<Rightarrow> real list" where
  "to_feature_vector d =
     [ real_of_int (job_category d) / 100,
       real_of_int (dispute_category d) / 7,
       real_of_int (amount_tier d) / 4,
       real_of_int (evidence_quality_a d) / 100,
       real_of_int (evidence_quality_b d) / 100,
       real_of_int (min (response_time_a d) 168) / 168,
       real_of_int (min (response_time_b d) 168) / 168,
       real_of_int (min (prior_disputes_a d) 10) / 10,
       real_of_int (min (prior_disputes_b d) 10) / 10,
       real_of_int (evidence_quality_a d - evidence_quality_b d) / 100,
       (if response_time_a d + response_time_b d > 0
        then real_of_int (response_time_b d - response_time_a d) / 168 else 0),
       real_of_int (prior_disputes_b d - prior_disputes_a d) / 10 ]"

definition to_label :: "SmlTrainingData \<Rightarrow> int" where
  "to_label d = final_verdict d"

text \<open>
  The feature vector as section 3 of the specification lists it, component by component;
  component 11 is the difference quotient "or 0 if both response times are 0".
\<close>

definition spec_feature_vector :: "SmlTrainingData \<Rightarrow> real list" where
  "spec_feature_vector d =
     [ real_of_int (job_category d) / 100,
       real_of_int (dispute_category d) / 7,
       real_of_int (amount_tier d) / 4,
       real_of_int (evidence_quality_a d) / 100,
       real_of_int (evidence_quality_b d) / 100,
       min (real_of_int (response_time_a d)) 168 / 168,
       min (real_of_int (response_time_b d)) 168 / 168,
       min (real_of_int (prior_disputes_a d)) 10 / 10,
       min (real_of_int (prior_disputes_b d)) 10 / 10,
       (real_of_int (evidence_quality_a d) - real_of_int (evidence_quality_b d)) / 100,
       (if response_time_a d = 0 \<and> response_time_b d = 0 then 0
        else (real_of_int (response_time_b d) - real_of_int (response_time_a d)) / 168),
       (real_of_int (prior_disputes_b d) - real_of_int (prior_disputes_a d)) / 10 ]"

section \<open>Rationale generator\<close>

text \<open>\<^verbatim>\<open>"; ".join(reasons)\<close>\<close>

fun join :: "string \<Rightarrow> string list \<Rightarrow> string" where
  "join sep [] = []"
| "join sep [x] = x"
| "join sep (x # y # ys) = x @ sep @ join sep (y # ys)"

text \<open>
  \<^verbatim>\<open>DisputeSmlModel._generate_reasoning\<close>: the list \<^verbatim>\<open>reasons\<close> is threaded through
  the four if/elif blocks in source order; \<^verbatim>\<open>response_time_b / 2\<close> is true division.
\<close>

definition reasons_evidence :: "SmlTrainingData \<Rightarrow> string list \<Rightarrow> string list" where
  "reasons_evidence c reasons =
     (if evidence_quality_a c > evidence_quality_b c + 20
      then reasons @ [''Party A has stronger evidence'']
      else if evidence_quality_b c > evidence_quality_a c + 20
      then reasons @ [''Party B has stronger evidence'']
      else reasons)"

definition reasons_response :: "SmlTrainingData \<Rightarrow> string list \<Rightarrow> string list" where
  "reasons_response c reasons =
     (if real_of_int (response_time_a c) < real_of_int (response_time_b c) / 2
      then reasons @ [''Party A responded more quickly'']
      else if real_of_int (response_time_b c) < real_of_int (response_time_a c) / 2
      then reasons @ [''Party B responded more quickly'']
      else reasons)"

definition reasons_prior :: "SmlTrainingData \<Rightarrow> string list \<Rightarrow> string list" where
  "reasons_prior c reasons =
     (if prior_disputes_a c > prior_disputes_b c + 2
      then reasons @ [''Party A has more prior disputes (negative signal)'']
      else if prior_disputes_b c > prior_disputes_a c + 2
      then reasons @ [''Party B has more prior disputes (negative signal)'']
      else reasons)"

definition reasons_category :: "SmlTrainingData \<Rightarrow> string list \<Rightarrow> string list" where
  "reasons_category c reasons =
     (if dispute_category c = NON_DELIVERY
      then reasons @ [''Non-delivery cases typically favor claimant if evidence is clear'']
      else if dispute_category c = QUALITY_ISSUE
      then reasons @ [''Quality disputes often result in partial resolutions'']
      else reasons)"

definition fallback_reason :: string where
  "fallback_reason = ''Case features are balanced; prediction based on similar historical cases''"

definition generate_reasoning :: "SmlTrainingData \<Rightarrow> int \<Rightarrow> string" where
  "generate_reasoning c predicted =
     (let reasons = reasons_category c (reasons_prior c (reasons_response c (reasons_evidence c [])));
          reasons = (if reasons = [] then reasons @ [fallback_reason] else reasons)
      in join ''; '' reasons)"

text \<open>
  The four rules as section 4.4 of the specification words them, each yielding the notes it
  triggers (none or one), over the integers.
\<close>

definition rule_evidence_gap :: "SmlTrainingData \<Rightarrow> string list" where
  "rule_evidence_gap c =
     (if evidence_quality_a c - evidence_quality_b c > 20 then [''Party A has stronger evidence'']
      else if evidence_quality_b c - evidence_quality_a c > 20 then [''Party B has stronger evidence'']
      else [])"

definition rule_response_time :: "SmlTrainingData \<Rightarrow> string list" where
  "rule_response_time c =
     (if 2 * response_time_a c < response_time_b c then [''Party A responded more quickly'']
      else if 2 * response_time_b c < response_time_a c then [''Party B responded more quickly'']
      else [])"

definition rule_prior_disputes :: "SmlTrainingData \<Rightarrow> string list" where
  "rule_prior_disputes c =
     (if prior_disputes_a c - prior_disputes_b c > 2
      then [''Party A has more prior disputes (negative signal)'']
      else if prior_disputes_b c - prior_disputes_a c > 2
      then [''Party B has more prior disputes (negative signal)'']
      else [])"

definition rule_category_note :: "SmlTrainingData \<Rightarrow> string list" where
  "rule_category_note c =
     (if dispute_category c = 0
      then [''Non-delivery cases typically favor claimant if evidence is clear'']
      else if dispute_category c = 1
      then [''Quality disputes often result in partial resolutions'']
      else [])"

definition triggered_notes :: "SmlTrainingData \<Rightarrow> string list" where
  "triggered_notes c =
     rule_evidence_gap c @ rule_response_time c @ rule_prior_disputes c @ rule_category_note c"

section \<open>Threshold split (DecisionStump)\<close>

text \<open>
  A two-dimensional array of shape \<open>(length (rows X), n_cols X)\<close>. The column count is kept
  beside the rows because an array with no rows still has one. Every array the program
  builds satisfies \<open>wf_matrix\<close>.
\<close>

record matrix =
  n_cols :: nat
  rows :: "real list list"


text \<open>\<^verbatim>\<open>X[:, f]\<close> for an index \<open>f\<close> inside the array.\<close>

definition column :: "matrix \<Rightarrow> nat \<Rightarrow> real list" where
  "column X f = map (\<lambda>r. r ! f) (rows X)"

text \<open>\<^verbatim>\<open>np.unique\<close>: the distinct values, ascending.\<close>

definition np_unique :: "real list \<Rightarrow> real list" where
  "np_unique xs = sort (remdups xs)"

text \<open>\<^verbatim>\<open>mask.sum()\<close>, \<^verbatim>\<open>a[mask]\<close>, \<^verbatim>\<open>a.mean()\<close>, \<^verbatim>\<open>np.where(mask, l, r)\<close>.\<close>

definition count_true :: "bool list \<Rightarrow> nat" where
  "count_true m = length (filter (\<lambda>b. b) m)"

definition masked :: "bool list \<Rightarrow> 'a list \<Rightarrow> 'a list" where
  "masked m a = map snd (filter fst (zip m a))"

definition mean :: "real list \<Rightarrow> real" where
  "mean a = sum_list a / real (length a)"

definition np_where :: "bool list \<Rightarrow> real \<Rightarrow> real \<Rightarrow> real list" where
  "np_where m l r = map (\<lambda>b. if b then l else r) m"

record DecisionStump =
  feature_idx :: nat
  threshold :: real
  left_value :: real
  right_value :: real

text \<open>\<^verbatim>\<open>DecisionStump.__init__\<close>\<close>

definition DecisionStump_init :: DecisionStump where
  "DecisionStump_init = \<lparr>feature_idx = 0, threshold = 0, left_value = 0, right_value = 0\<rparr>"

text \<open>
  \<^verbatim>\<open>gain > best_gain\<close>, where \<^verbatim>\<open>best_gain\<close> starts at \<^verbatim>\<open>-np.inf\<close>: \<open>None\<close> stands for
  minus infinity.
\<close>

fun exceeds :: "real \<Rightarrow> real option \<Rightarrow> bool" where
  "exceeds g None = True"
| "exceeds g (Some b) = (g > b)"

text \<open>
  The body of the inner loop of \<^verbatim>\<open>DecisionStump.fit\<close> for one threshold of one feature;
  the loop state is \<^verbatim>\<open>best_gain\<close> and the stump's four fields. \<^verbatim>\<open>residuals\<close> has one entry
  per row of \<open>X\<close>.
\<close>

definition try_threshold ::
  "matrix \<Rightarrow> real list \<Rightarrow> nat \<Rightarrow> real option \<times> DecisionStump \<Rightarrow> real \<Rightarrow> real option \<times> DecisionStump"
where
  "try_threshold X residuals feat_idx st thresh =
     (let feature_values = column X feat_idx;
          left_mask = map (\<lambda>v. v \<le> thresh) feature_values;
          right_mask = map Not left_mask
      in if count_true left_mask < 2 \<or> count_true right_mask < 2 then st
         else
           let left_mean = mean (masked left_mask residuals);
               right_mean = mean (masked right_mask residuals);
               pred = np_where left_mask left_mean right_mean;
               gain = - sum_list (map (\<lambda>(r, p). (r - p)\<^sup>2) (zip residuals pred))
           in if exceeds gain (fst st)
              then (Some gain, \<lparr>feature_idx = feat_idx, threshold = thresh,
                                left_value = left_mean, right_value = right_mean\<rparr>)
              else st)"

definition fit_feature ::
  "matrix \<Rightarrow> real list \<Rightarrow> real option \<times> DecisionStump \<Rightarrow> nat \<Rightarrow> real option \<times> DecisionStump"
where
  "fit_feature X residuals st feat_idx =
     fold (\<lambda>thresh s. try_threshold X residuals feat_idx s thresh)
       (np_unique (column X feat_idx)) st"

definition DecisionStump_fit :: "DecisionStump \<Rightarrow> matrix \<Rightarrow> real list \<Rightarrow> DecisionStump" where
  "DecisionStump_fit self X residuals =
     snd (fold (\<lambda>feat_idx s. fit_feature X residuals s feat_idx) [0..<n_cols X] (None, self))"

text \<open>
  \<^verbatim>\<open>DecisionStump.predict\<close>: \<^verbatim>\<open>X[:, self.feature_idx]\<close> raises IndexError when the index is
  not a column of \<open>X\<close>.
\<close>

definition DecisionStump_predict :: "DecisionStump \<Rightarrow> matrix \<Rightarrow> py_error + real list" where
  "DecisionStump_predict self X =
     (if feature_idx self < n_cols X
      then Inr (map (\<lambda>v. if v \<le> threshold self then left_value self else right_value self)
                  (column X (feature_idx self)))
      else Inl IndexError)"

text \<open>
  The vocabulary of section 4.1 of the specification: a candidate (feature, threshold) is
  accepted when the threshold occurs in the feature's column and both sides of the
  partition hold at least two rows; its score is the negative sum of squared errors of the
  two partition means.
\<close>

definition left_rows :: "matrix \<Rightarrow> nat \<Rightarrow> real \<Rightarrow> bool list" where
  "left_rows X f t = map (\<lambda>v. v \<le> t) (column X f)"

definition accepted :: "matrix \<Rightarrow> nat \<Rightarrow> real \<Rightarrow> bool" where
  "accepted X f t =
     (f < n_cols X \<and> t \<in> set (column X f) \<and>
      2 \<le> count_true (left_rows X f t) \<and> 2 \<le> count_true (map Not (left_rows X f t)))"

definition left_mean_of :: "matrix \<Rightarrow> real list \<Rightarrow> nat \<Rightarrow> real \<Rightarrow> real" where
  "left_mean_of X residuals f t = mean (masked (left_rows X f t) residuals)"

definition right_mean_of :: "matrix \<Rightarrow> real list \<Rightarrow> nat \<Rightarrow> real \<Rightarrow> real" where
  "right_mean_of X residuals f t = mean (masked (map Not (left_rows X f t)) residuals)"

definition score :: "matrix \<Rightarrow> real list \<Rightarrow> nat \<Rightarrow> real \<Rightarrow> real" where
  "score X residuals f t =
     - (\<Sum>(r, b) \<leftarrow> zip residuals (left_rows X f t).
          (r - (if b then left_mean_of X residuals f t else right_mean_of X residuals f t))\<^sup>2)"

definition split_of :: "matrix \<Rightarrow> real list \<Rightarrow> nat \<Rightarrow> real \<Rightarrow> DecisionStump" where
  "split_of X residuals f t =
     \<lparr>feature_idx = f, threshold = t,
      left_value = left_mean_of X residuals f t, right_value = right_mean_of X residuals f t\<rparr>"

section \<open>Boosted ensemble (SimpleGradientBoosting)\<close>

record SimpleGradientBoosting =
  n_estimators :: nat
  learning_rate :: real
  n_classes :: nat
  estimators :: "DecisionStump list list"
  initial_predictions :: "real list option"

text \<open>\<^verbatim>\<open>SimpleGradientBoosting.__init__\<close>; \<^verbatim>\<open>initial_predictions\<close> is \<^verbatim>\<open>None\<close> until fit.\<close>

definition SimpleGradientBoosting_init :: "nat \<Rightarrow> real \<Rightarrow> nat \<Rightarrow> SimpleGradientBoosting" where
  "SimpleGradientBoosting_init n lr k =
     \<lparr>n_estimators = n, learning_rate = lr, n_classes = k, estimators = [],
      initial_predictions = None\<rparr>"

text \<open>A loop whose body may raise: the first error ends it.\<close>

fun fold_err :: "('a \<Rightarrow> 's \<Rightarrow> py_error + 's) \<Rightarrow> 'a list \<Rightarrow> 's \<Rightarrow> py_error + 's" where
  "fold_err f [] s = Inr s"
| "fold_err f (x # xs) s = (case f x s of Inl e \<Rightarrow> Inl e | Inr s' \<Rightarrow> fold_err f xs s')"

text \<open>
  \<^verbatim>\<open>_softmax\<close>: \<^verbatim>\<open>np.max(x, axis=1)\<close> raises ValueError on an array with no columns.
\<close>

fun row_max :: "real list \<Rightarrow> real" where
  "row_max [] = 0"
| "row_max (x # xs) = fold max xs x"

definition softmax_row :: "real list \<Rightarrow> real list" where
  "softmax_row row =
     (let exp_x = map (\<lambda>v. exp (v - row_max row)) row
      in map (\<lambda>e. e / sum_list exp_x) exp_x)"

definition softmax :: "matrix \<Rightarrow> py_error + matrix" where
  "softmax x =
     (if n_cols x = 0 then Inl ValueError
      else Inr \<lparr>n_cols = n_cols x, rows = map softmax_row (rows x)\<rparr>)"

text \<open>\<^verbatim>\<open>np.tile(v, (n, 1))\<close> and \<^verbatim>\<open>predictions[:, c] += delta\<close> (for a column \<open>c\<close> of the array).\<close>

definition tile :: "real list \<Rightarrow> nat \<Rightarrow> matrix" where
  "tile v n = \<lparr>n_cols = length v, rows = replicate n v\<rparr>"

definition add_column :: "matrix \<Rightarrow> nat \<Rightarrow> real list \<Rightarrow> matrix" where
  "add_column P c delta =
     \<lparr>n_cols = n_cols P, rows = map (\<lambda>(row, a). row[c := row ! c + a]) (zip (rows P) delta)\<rparr>"

text \<open>
  The one-hot encoding at the head of \<^verbatim>\<open>fit\<close>: the assignment \<^verbatim>\<open>y_onehot[i, label] = 1\<close>
  raises IndexError for a label in range at a position past the last row.
\<close>

definition one_hot :: "nat \<Rightarrow> nat \<Rightarrow> int list \<Rightarrow> py_error + matrix" where
  "one_hot n_samples k y =
     (if list_ex (\<lambda>label. 0 \<le> label \<and> label < int k) (drop n_samples y) then Inl IndexError
      else Inr \<lparr>n_cols = k,
                rows = map (\<lambda>i. map (\<lambda>c. if i < length y \<and> y ! i = int c then 1 else 0) [0..<k])
                         [0..<n_samples]\<rparr>)"

text \<open>
  The body of the class loop of \<^verbatim>\<open>fit\<close>: the loop state is the raw-score array
  \<^verbatim>\<open>predictions\<close> and the list \<^verbatim>\<open>round_estimators\<close>. The softmax is taken of
  \<^verbatim>\<open>predictions\<close> as it stands when class \<open>c\<close> is reached.
\<close>

definition fit_class ::
  "matrix \<Rightarrow> matrix \<Rightarrow> real \<Rightarrow> nat \<Rightarrow> matrix \<times> DecisionStump list
     \<Rightarrow> py_error + matrix \<times> DecisionStump list"
where
  "fit_class X y_onehot lr c st =
     (case st of (predictions, round_estimators) \<Rightarrow>
        (case softmax predictions of
           Inl e \<Rightarrow> Inl e
         | Inr proba \<Rightarrow>
             let residuals = map2 (-) (column y_onehot c) (column proba c);
                 stump = DecisionStump_fit DecisionStump_init X residuals
             in (case DecisionStump_predict stump X of
                   Inl e \<Rightarrow> Inl e
                 | Inr v \<Rightarrow> Inr (add_column predictions c (map (\<lambda>p. lr * p) v),
                                 round_estimators @ [stump]))))"

text \<open>One boosting iteration: the classes in the order \<open>cs\<close>; the source uses \<^verbatim>\<open>range(n_classes)\<close>.\<close>

definition fit_round ::
  "matrix \<Rightarrow> matrix \<Rightarrow> real \<Rightarrow> nat list \<Rightarrow> matrix \<times> DecisionStump list list
     \<Rightarrow> py_error + matrix \<times> DecisionStump list list"
where
  "fit_round X y_onehot lr cs st =
     (case st of (predictions, ests) \<Rightarrow>
        (case fold_err (fit_class X y_onehot lr) cs (predictions, []) of
           Inl e \<Rightarrow> Inl e
         | Inr (predictions', round_estimators) \<Rightarrow> Inr (predictions', ests @ [round_estimators])))"

fun fit_rounds ::
  "matrix \<Rightarrow> matrix \<Rightarrow> real \<Rightarrow> nat \<Rightarrow> nat \<Rightarrow> matrix \<times> DecisionStump list list
     \<Rightarrow> py_error + matrix \<times> DecisionStump list list"
where
  "fit_rounds X y_onehot lr k 0 st = Inr st"
| "fit_rounds X y_onehot lr k (Suc m) st =
     (case fit_round X y_onehot lr [0..<k] st of
        Inl e \<Rightarrow> Inl e
      | Inr st' \<Rightarrow> fit_rounds X y_onehot lr k m st')"

text \<open>
  \<^verbatim>\<open>SimpleGradientBoosting.fit\<close>. The class priors are column means over the rows: with no
  rows NumPy yields NaN, which the model does not represent.
\<close>

definition SimpleGradientBoosting_fit ::
  "SimpleGradientBoosting \<Rightarrow> matrix \<Rightarrow> int list \<Rightarrow> py_error + SimpleGradientBoosting"
where
  "SimpleGradientBoosting_fit self X y =
     (let n_samples = length (rows X) in
      case one_hot n_samples (n_classes self) y of
        Inl e \<Rightarrow> Inl e
      | Inr y_onehot \<Rightarrow>
          let init = map (\<lambda>c. mean (column y_onehot c)) [0..<n_classes self];
              predictions = tile init n_samples
          in (case fit_rounds X y_onehot (learning_rate self) (n_classes self) (n_estimators self)
                     (predictions, estimators self) of
                Inl e \<Rightarrow> Inl e
              | Inr (predictions', ests) \<Rightarrow>
                  Inr (self\<lparr>estimators := ests, initial_predictions := Some init\<rparr>)))"

text \<open>
  \<^verbatim>\<open>predict_proba\<close>: \<^verbatim>\<open>predictions[:, c] += ...\<close> raises IndexError for a class position
  that is no column of \<^verbatim>\<open>predictions\<close>, and so does the stump on a feature that is no
  column of \<open>X\<close>.
\<close>

definition add_stump :: "real \<Rightarrow> matrix \<Rightarrow> nat \<times> DecisionStump \<Rightarrow> matrix \<Rightarrow> py_error + matrix" where
  "add_stump lr X cs predictions =
     (case cs of (c, stump) \<Rightarrow>
        if c < n_cols predictions
        then (case DecisionStump_predict stump X of
                Inl e \<Rightarrow> Inl e
              | Inr v \<Rightarrow> Inr (add_column predictions c (map (\<lambda>p. lr * p) v)))
        else Inl IndexError)"

definition add_round :: "real \<Rightarrow> matrix \<Rightarrow> DecisionStump list \<Rightarrow> matrix \<Rightarrow> py_error + matrix" where
  "add_round lr X round_estimators predictions =
     fold_err (add_stump lr X) (enumerate 0 round_estimators) predictions"

definition SimpleGradientBoosting_predict_proba ::
  "SimpleGradientBoosting \<Rightarrow> matrix \<Rightarrow> py_error + matrix"
where
  "SimpleGradientBoosting_predict_proba self X =
     (case initial_predictions self of
        None \<Rightarrow> Inl TypeError
      | Some init \<Rightarrow>
          (case fold_err (add_round (learning_rate self) X) (estimators self)
                  (tile init (length (rows X))) of
             Inl e \<Rightarrow> Inl e
           | Inr predictions \<Rightarrow> softmax predictions))"

text \<open>\<^verbatim>\<open>np.argmax\<close>: the first position holding the maximum.\<close>

fun first_index :: "real \<Rightarrow> real list \<Rightarrow> nat" where
  "first_index m [] = 0"
| "first_index m (x # xs) = (if x = m then 0 else Suc (first_index m xs))"

definition argmax :: "real list \<Rightarrow> nat" where
  "argmax row = first_index (row_max row) row"

definition SimpleGradientBoosting_predict ::
  "SimpleGradientBoosting \<Rightarrow> matrix \<Rightarrow> py_error + nat list"
where
  "SimpleGradientBoosting_predict self X =
     (case SimpleGradientBoosting_predict_proba self X of
        Inl e \<Rightarrow> Inl e
      | Inr proba \<Rightarrow> Inr (map argmax (rows proba)))"

section \<open>Model manager (DisputeSmlModel)\<close>

text \<open>
  The pickled dictionary that \<^verbatim>\<open>save\<close> writes, and the file system as a map from paths
  to stored artifacts. Input/output failures are outside the model.
\<close>

record artifact =
  stored_model :: "SimpleGradientBoosting option"
  stored_version :: int
  stored_training_samples :: nat
  stored_accuracy :: real

type_synonym filesystem = "string \<Rightarrow> artifact option"

record DisputeSmlModel =
  model_path :: string
  model :: "SimpleGradientBoosting option"
  version :: int
  training_samples :: nat
  accuracy :: real

definition DisputeSmlModel_init :: "string \<Rightarrow> DisputeSmlModel" where
  "DisputeSmlModel_init path =
     \<lparr>model_path = path, model = None, version = 1, training_samples = 0, accuracy = 0\<rparr>"

definition save :: "DisputeSmlModel \<Rightarrow> filesystem \<Rightarrow> filesystem" where
  "save self fs =
     fs(model_path self \<mapsto>
        \<lparr>stored_model = model self, stored_version = version self,
         stored_training_samples = training_samples self, stored_accuracy = accuracy self\<rparr>)"

definition load :: "DisputeSmlModel \<Rightarrow> filesystem \<Rightarrow> DisputeSmlModel" where
  "load self fs =
     (case fs (model_path self) of
        None \<Rightarrow> self
      | Some data \<Rightarrow>
          self\<lparr>model := stored_model data, version := stored_version data,
               training_samples := stored_training_samples data,
               accuracy := stored_accuracy data\<rparr>)"

text \<open>
  \<^verbatim>\<open>int(x)\<close> truncates towards zero; \<^verbatim>\<open>round(x, nd)\<close> rounds to the nearest multiple of
  \<open>10^-nd\<close>, a tie to the even one; \<^verbatim>\<open>xs[:k]\<close> and \<^verbatim>\<open>xs[k:]\<close> count a negative \<open>k\<close> from
  the end.
\<close>

definition py_int :: "real \<Rightarrow> int" where
  "py_int x = (if 0 \<le> x then \<lfloor>x\<rfloor> else \<lceil>x\<rceil>)"

definition round_half_even :: "real \<Rightarrow> int" where
  "round_half_even x =
     (let f = \<lfloor>x\<rfloor>; d = x - of_int f
      in if d < 1 / 2 then f else if 1 / 2 < d then f + 1 else if even f then f else f + 1)"

definition py_round :: "real \<Rightarrow> nat \<Rightarrow> real" where
  "py_round x nd = of_int (round_half_even (x * 10 ^ nd)) / 10 ^ nd"

definition slice_stop :: "int \<Rightarrow> 'a list \<Rightarrow> 'a list" where
  "slice_stop k xs = (if 0 \<le> k then take (nat k) xs else take (length xs - nat (- k)) xs)"

definition slice_start :: "int \<Rightarrow> 'a list \<Rightarrow> 'a list" where
  "slice_start k xs = (if 0 \<le> k then drop (nat k) xs else drop (length xs - nat (- k)) xs)"

text \<open>
  \<^verbatim>\<open>X[idx]\<close> and \<^verbatim>\<open>y[idx]\<close> for an index array whose entries are valid positions. The
  feature array built from the records has twelve columns.
\<close>

definition select_rows :: "matrix \<Rightarrow> nat list \<Rightarrow> matrix" where
  "select_rows X idx = \<lparr>n_cols = n_cols X, rows = map (\<lambda>i. rows X ! i) idx\<rparr>"

definition select :: "'a list \<Rightarrow> nat list \<Rightarrow> 'a list" where
  "select y idx = map (\<lambda>i. y ! i) idx"

datatype train_result =
  TrainError string
| TrainSuccess (result_version: int) (result_training_samples: nat) (result_test_samples: nat)
    (result_accuracy: real) (result_status: string)

text \<open>
  \<^verbatim>\<open>DisputeSmlModel.train\<close>. The argument \<open>indices\<close> is the value drawn by
  \<^verbatim>\<open>np.random.permutation(len(X))\<close>, a permutation of the valid row positions. The result is
  the returned dictionary, the manager after the call and the file system after the call;
  \<open>Inl\<close> is an exception leaving the call. The accuracy is a mean over the test rows: with
  no test rows NumPy yields NaN, which the model does not represent.
\<close>

definition train ::
  "DisputeSmlModel \<Rightarrow> filesystem \<Rightarrow> SmlTrainingData list \<Rightarrow> real \<Rightarrow> nat list
     \<Rightarrow> py_error + train_result \<times> DisputeSmlModel \<times> filesystem"
where
  "train self fs training_data test_split indices =
     (if length training_data < 10
      then Inr (TrainError ''Need at least 10 training samples'', self, fs)
      else
        let X = map to_feature_vector training_data;
            y = map to_label training_data;
            valid_mask = map (\<lambda>l. 0 \<le> l \<and> l < 6) y;
            X = \<lparr>n_cols = 12, rows = masked valid_mask X\<rparr>;
            y = masked valid_mask y
        in if length (rows X) < 10
           then Inr (TrainError ''Not enough valid samples after filtering'', self, fs)
           else
             let n_test = py_int (real (length (rows X)) * test_split);
                 test_idx = slice_stop n_test indices;
                 train_idx = slice_start n_test indices;
                 X_train = select_rows X train_idx;
                 X_test = select_rows X test_idx;
                 y_train = select y train_idx;
                 y_test = select y test_idx
             in (case SimpleGradientBoosting_fit (SimpleGradientBoosting_init 50 (1 / 10) 6)
                        X_train y_train of
                   Inl e \<Rightarrow> Inl e
                 | Inr m \<Rightarrow>
                     (case SimpleGradientBoosting_predict m X_test of
                        Inl e \<Rightarrow> Inl e
                      | Inr y_pred \<Rightarrow>
                          let acc = mean (map2 (\<lambda>p t. if int p = t then 1 else 0) y_pred y_test);
                              self' = self\<lparr>model := Some m, accuracy := acc,
                                           training_samples := length (rows X_train),
                                           version := version self + 1\<rparr>
                          in Inr (TrainSuccess (version self') (training_samples self')
                                    (length (rows X_test)) (py_round (accuracy self' * 100) 2)
                                    ''success'',
                                  self', save self' fs))))"

datatype prediction =
  NotTrained (verdict: JuryVerdict) (confidence: int) (reasoning: string)
| Predicted (verdict: JuryVerdict) (verdict_name: string) (confidence: int)
    (probabilities: "(string \<times> real) list") (reasoning: string) (model_version: int)
    (model_accuracy: real)

text \<open>The dictionary comprehension over \<^verbatim>\<open>enumerate(proba)\<close> in \<^verbatim>\<open>predict\<close>.\<close>

fun probabilities_of :: "(nat \<times> real) list \<Rightarrow> py_error + (string \<times> real) list" where
  "probabilities_of [] = Inr []"
| "probabilities_of ((i, p) # ps) =
     (case JuryVerdict_of (int i) of
        Inl e \<Rightarrow> Inl e
      | Inr v \<Rightarrow>
          (case probabilities_of ps of
             Inl e \<Rightarrow> Inl e
           | Inr rest \<Rightarrow> Inr ((JuryVerdict_name v, py_round (p * 100) 1) # rest)))"

text \<open>
  \<^verbatim>\<open>DisputeSmlModel.predict\<close>: returns the dictionary and the manager after the call (a
  load changes it).
\<close>

definition predict ::
  "DisputeSmlModel \<Rightarrow> filesystem \<Rightarrow> SmlTrainingData \<Rightarrow> py_error + prediction \<times> DisputeSmlModel"
where
  "predict self fs case_data =
     (let self = (if model self = None then load self fs else self) in
      case model self of
        None \<Rightarrow> Inr (NotTrained PENDING 0 ''Model not trained yet'', self)
      | Some m \<Rightarrow>
          let X = \<lparr>n_cols = length (to_feature_vector case_data),
                   rows = [to_feature_vector case_data]\<rparr>
          in (case SimpleGradientBoosting_predict_proba m X of
                Inl e \<Rightarrow> Inl e
              | Inr P \<Rightarrow>
                  let proba = hd (rows P);
                      predicted_class = argmax proba;
                      conf = py_int (proba ! predicted_class * 100);
                      reasoning = generate_reasoning case_data (int predicted_class)
                  in (case JuryVerdict_of (int predicted_class) of
                        Inl e \<Rightarrow> Inl e
                      | Inr v \<Rightarrow>
                          (case probabilities_of (enumerate 0 proba) of
                             Inl e \<Rightarrow> Inl e
                           | Inr probs \<Rightarrow>
                               Inr (Predicted v (JuryVerdict_name v) conf probs reasoning
                                      (version self) (py_round (accuracy self * 100) 1),
                                    self)))))"

section \<open>Auxiliary notions and concrete inputs\<close>

text \<open>
  A case with strong evidence for party A and everything else neutral (equal response
  times, no prior disputes, category "other"), its mirror image, and a batch of twelve
  records whose label 9 is no verdict.
\<close>

definition example_case :: SmlTrainingData where
  "example_case =
     \<lparr>case_id = ''test_001'', job_category = 5, dispute_category = 7, amount_tier = 2,
      evidence_quality_a = 85, evidence_quality_b = 40, response_time_a = 24,
      response_time_b = 24, prior_disputes_a = 0, prior_disputes_b = 0, votes = [],
      confidences = [], final_verdict = 0, auto_resolved = False, consensus_strength = 0\<rparr>"

definition mirrored_case :: SmlTrainingData where
  "mirrored_case = example_case\<lparr>evidence_quality_a := 40, evidence_quality_b := 85\<rparr>"

definition mislabelled_batch :: "SmlTrainingData list" where
  "mislabelled_batch = replicate 12 (example_case\<lparr>final_verdict := 9\<rparr>)"

text \<open>
  The order in which the two nested loops of \<^verbatim>\<open>DecisionStump.fit\<close> visit the candidates
  (features ascending, thresholds ascending within a feature), the acceptance test as a
  predicate on a candidate, and the lexicographic order on candidates.
\<close>

definition candidates_of :: "matrix \<Rightarrow> nat list \<Rightarrow> (nat \<times> real) list" where
  "candidates_of X fs = concat (map (\<lambda>f. map (Pair f) (np_unique (column X f))) fs)"

definition splits_rows :: "matrix \<Rightarrow> nat \<times> real \<Rightarrow> bool" where
  "splits_rows X c = (2 \<le> count_true (left_rows X (fst c) (snd c)) \<and>
                     2 \<le> count_true (map Not (left_rows X (fst c) (snd c))))"


definition tiny_X :: matrix where
  "tiny_X = \<lparr>n_cols = 1, rows = [[1], [2], [3]]\<rparr>"
definition tiny_residuals :: "real list" where
  "tiny_residuals = [1, - 1, 2]"













section \<open>Feature vector and rationale: results\<close>

lemma reasons_evidence_app: "reasons_evidence c rs = rs @ rule_evidence_gap c"
  by (simp add: reasons_evidence_def rule_evidence_gap_def)

lemma reasons_response_app: "reasons_response c rs = rs @ rule_response_time c"
  by (simp add: reasons_response_def rule_response_time_def)

lemma reasons_prior_app: "reasons_prior c rs = rs @ rule_prior_disputes c"
  by (simp add: reasons_prior_def rule_prior_disputes_def)

lemma reasons_category_app: "reasons_category c rs = rs @ rule_category_note c"
  by (simp add: reasons_category_def rule_category_note_def NON_DELIVERY_def QUALITY_ISSUE_def)

lemma reasons_chain:
  "reasons_category c (reasons_prior c (reasons_response c (reasons_evidence c []))) = triggered_notes c"
  by (simp add: reasons_evidence_app reasons_response_app reasons_prior_app reasons_category_app
      triggered_notes_def)

lemma generate_reasoning_notes:
  "generate_reasoning c p =
     (if triggered_notes c = [] then fallback_reason else join ''; '' (triggered_notes c))"
  by (simp add: generate_reasoning_def reasons_chain Let_def)

lemma prefix_join_hd: "prefix x (join sep (x # xs))"
  by (cases xs) simp_all

lemma hd_join: "xs \<noteq> [] \<Longrightarrow> hd xs \<noteq> [] \<Longrightarrow> hd (join sep xs) = hd (hd xs)"
  by (induction sep xs rule: join.induct) auto

lemma triggered_notes_hd:
  "triggered_notes c \<noteq> [] \<Longrightarrow>
     hd (triggered_notes c) \<noteq> [] \<and>
     hd (hd (triggered_notes c)) \<in> {CHR ''P'', CHR ''N'', CHR ''Q''}"
  by (auto simp: triggered_notes_def rule_evidence_gap_def rule_response_time_def
      rule_prior_disputes_def rule_category_note_def split: if_splits)

lemma fallback_iff_no_note:
  "generate_reasoning c p = fallback_reason \<longleftrightarrow> triggered_notes c = []"
proof (cases "triggered_notes c = []")
  case True
  then show ?thesis by (simp add: generate_reasoning_notes)
next
  case False
  from triggered_notes_hd [OF False] hd_join [of "triggered_notes c" "''; ''"] False
  have "hd (join ''; '' (triggered_notes c)) \<in> {CHR ''P'', CHR ''N'', CHR ''Q''}" by simp
  moreover have "hd fallback_reason = CHR ''C''" by (simp add: fallback_reason_def)
  ultimately have "join ''; '' (triggered_notes c) \<noteq> fallback_reason" by auto
  with False show ?thesis by (simp add: generate_reasoning_notes)
qed

lemma stronger_a_first:
  assumes "evidence_quality_a c > evidence_quality_b c + 20"
  shows "prefix ''Party A has stronger evidence'' (generate_reasoning c p)"
proof -
  from assms obtain rest where "triggered_notes c = ''Party A has stronger evidence'' # rest"
    by (simp add: triggered_notes_def rule_evidence_gap_def)
  then show ?thesis using prefix_join_hd by (simp add: generate_reasoning_notes)
qed

lemma stronger_b_first:
  assumes "evidence_quality_b c > evidence_quality_a c + 20"
  shows "prefix ''Party B has stronger evidence'' (generate_reasoning c p)"
proof -
  from assms obtain rest where "triggered_notes c = ''Party B has stronger evidence'' # rest"
    by (simp add: triggered_notes_def rule_evidence_gap_def)
  then show ?thesis using prefix_join_hd by (simp add: generate_reasoning_notes)
qed

text \<open>
  Claim C6. For a case record whose response times are non-negative (the data model's
  invariant), the feature vector computed by the code is the twelve-component vector the
  specification lists: response times capped at 168 hours, prior-dispute counts capped at
  10, and component 11 equal to (response_time_b - response_time_a)/168, or 0 when both
  response times are 0. The vector is a function of the record alone.
\<close>

theorem to_feature_vector_matches_spec:
  assumes "0 \<le> response_time_a d" and "0 \<le> response_time_b d"
  shows "to_feature_vector d = spec_feature_vector d \<and> length (to_feature_vector d) = 12"
  using assms by (auto simp: to_feature_vector_def spec_feature_vector_def min_def)

theorem to_feature_vector_matches_spec_witness:
  "0 \<le> response_time_a example_case \<and> 0 \<le> response_time_b example_case \<and>
   to_feature_vector example_case = spec_feature_vector example_case \<and>
   length (to_feature_vector example_case) = 12"
proof -
  have a: "0 \<le> response_time_a example_case" and b: "0 \<le> response_time_b example_case"
    by (simp_all add: example_case_def)
  from to_feature_vector_matches_spec [OF a b] a b show ?thesis by blast
qed

text \<open>
  Claim C8. The rationale is the notes triggered by the four rules, taken in the order
  evidence gap, response time, prior disputes, category note, and joined with "; "; the
  generic fallback sentence is the result exactly when no rule fires; the result does not
  depend on the predicted class. With evidence qualities 85 for A and 40 for B the
  rationale contains the note that party A has stronger evidence, and with 40 and 85 it
  contains the mirrored note.
\<close>

theorem generate_reasoning_rule_order:
  "generate_reasoning c p =
     (if triggered_notes c = [] then fallback_reason else join ''; '' (triggered_notes c)) \<and>
   (generate_reasoning c p = fallback_reason \<longleftrightarrow> triggered_notes c = []) \<and>
   generate_reasoning c p = generate_reasoning c q \<and>
   (evidence_quality_a c = 85 \<and> evidence_quality_b c = 40 \<longrightarrow>
      sublist ''Party A has stronger evidence'' (generate_reasoning c p)) \<and>
   (evidence_quality_a c = 40 \<and> evidence_quality_b c = 85 \<longrightarrow>
      sublist ''Party B has stronger evidence'' (generate_reasoning c p))"
proof -
  have "evidence_quality_a c = 85 \<and> evidence_quality_b c = 40 \<longrightarrow>
      sublist ''Party A has stronger evidence'' (generate_reasoning c p)"
    using stronger_a_first [of c p] by (auto intro: prefix_imp_sublist)
  moreover have "evidence_quality_a c = 40 \<and> evidence_quality_b c = 85 \<longrightarrow>
      sublist ''Party B has stronger evidence'' (generate_reasoning c p)"
    using stronger_b_first [of c p] by (auto intro: prefix_imp_sublist)
  moreover have "generate_reasoning c p = generate_reasoning c q"
    by (simp add: generate_reasoning_notes)
  ultimately show ?thesis
    using generate_reasoning_notes [of c p] fallback_iff_no_note [of c p] by blast
qed

theorem generate_reasoning_rule_order_witness:
  "evidence_quality_a example_case = 85 \<and> evidence_quality_b example_case = 40 \<and>
   sublist ''Party A has stronger evidence'' (generate_reasoning example_case 1) \<and>
   evidence_quality_a mirrored_case = 40 \<and> evidence_quality_b mirrored_case = 85 \<and>
   sublist ''Party B has stronger evidence'' (generate_reasoning mirrored_case 2)"
proof -
  have a: "evidence_quality_a example_case = 85 \<and> evidence_quality_b example_case = 40"
    by (simp add: example_case_def)
  have b: "evidence_quality_a mirrored_case = 40 \<and> evidence_quality_b mirrored_case = 85"
    by (simp add: mirrored_case_def)
  from a b generate_reasoning_rule_order [of example_case 1 1]
    generate_reasoning_rule_order [of mirrored_case 2 2]
  show ?thesis by blast
qed

section \<open>Model manager: results\<close>

lemma length_masked_map:
  "length (masked (map P (map f xs)) (map g xs)) = length (filter (\<lambda>x. P (f x)) xs)"
  by (induction xs) (auto simp: masked_def)

lemma valid_rows_count:
  "length (masked (map (\<lambda>l. 0 \<le> l \<and> l < 6) (map to_label training_data))
             (map to_feature_vector training_data))
   = length (filter (\<lambda>d. 0 \<le> final_verdict d \<and> final_verdict d < 6) training_data)"
  by (simp only: length_masked_map to_label_def)

lemma train_error_small:
  assumes "length training_data < 10 \<or>
     length (filter (\<lambda>d. 0 \<le> final_verdict d \<and> final_verdict d < 6) training_data) < 10"
  shows "\<exists>msg. train self fs training_data t indices = Inr (TrainError msg, self, fs)"
proof (cases "length training_data < 10")
  case True
  then show ?thesis by (simp add: train_def)
next
  case False
  with assms
  have "length (filter (\<lambda>d. 0 \<le> final_verdict d \<and> final_verdict d < 6) training_data) < 10"
    by simp
  with False valid_rows_count [of training_data] show ?thesis
    by (simp add: train_def Let_def del: map_map)
qed

lemma train_error_frame:
  assumes "train self fs training_data t indices = Inr (TrainError msg, self', fs')"
  shows "self' = self \<and> fs' = fs"
  using assms by (auto simp: train_def Let_def split: if_splits sum.splits)

lemma predict_untrained:
  assumes "model self = None" and "fs (model_path self) = None"
  shows "predict self fs c = Inr (NotTrained PENDING 0 ''Model not trained yet'', self)"
  using assms by (simp add: predict_def load_def)

text \<open>
  Claim C3. When fewer than 10 records are given, or fewer than 10 rows remain after the
  rows with a label outside [0,6) are filtered out, train returns a structured error
  result (it does not raise), and the file system, the persisted artifact with it, is as
  it was before the call.
\<close>

theorem train_insufficient_data:
  assumes "length training_data < 10 \<or>
     length (filter (\<lambda>d. 0 \<le> final_verdict d \<and> final_verdict d < 6) training_data) < 10"
  shows "\<exists>msg. train self fs training_data test_split indices = Inr (TrainError msg, self, fs)"
  using assms by (rule train_error_small)

theorem train_insufficient_data_witness:
  "(length mislabelled_batch < 10 \<or>
     length (filter (\<lambda>d. 0 \<le> final_verdict d \<and> final_verdict d < 6) mislabelled_batch) < 10) \<and>
   (\<exists>msg. train (DisputeSmlModel_init ''dispute_sml_model.pkl'') Map.empty mislabelled_batch
            (1 / 5) [0..<12]
          = Inr (TrainError msg, DisputeSmlModel_init ''dispute_sml_model.pkl'', Map.empty))"
proof -
  have h: "length mislabelled_batch < 10 \<or>
     length (filter (\<lambda>d. 0 \<le> final_verdict d \<and> final_verdict d < 6) mislabelled_batch) < 10"
    by (simp add: mislabelled_batch_def)
  from h train_insufficient_data [OF h] show ?thesis by blast
qed

text \<open>
  Claim C10. Whenever train returns an error result, the manager is unchanged (held
  model, version counter, training-sample count and accuracy keep their values) and the
  file system is unchanged (no save took place).
\<close>

theorem train_error_leaves_state:
  assumes "train self fs training_data test_split indices = Inr (TrainError msg, self', fs')"
  shows "self' = self \<and> fs' = fs"
  using assms by (rule train_error_frame)

theorem train_error_leaves_state_witness:
  "train (DisputeSmlModel_init ''m.pkl'') Map.empty [example_case] (1 / 5) [0]
     = Inr (TrainError ''Need at least 10 training samples'', DisputeSmlModel_init ''m.pkl'',
            Map.empty) \<and>
   DisputeSmlModel_init ''m.pkl'' = DisputeSmlModel_init ''m.pkl'' \<and>
   (Map.empty :: filesystem) = Map.empty"
proof -
  have h: "train (DisputeSmlModel_init ''m.pkl'') Map.empty [example_case] (1 / 5) [0]
     = Inr (TrainError ''Need at least 10 training samples'', DisputeSmlModel_init ''m.pkl'',
            Map.empty)"
    by (simp add: train_def)
  from h train_error_leaves_state [OF h] show ?thesis by simp
qed

text \<open>
  Claim C4, as amended. When no model is held in memory and no artifact is stored at the
  manager's path, predict returns (it does not raise) verdict pending, confidence 0 and
  the rationale "Model not trained yet", with a capital M; the manager is unchanged.
\<close>

theorem predict_untrained_default:
  assumes "model self = None" and "fs (model_path self) = None"
  shows "predict self fs case_data = Inr (NotTrained PENDING 0 ''Model not trained yet'', self)"
  using assms by (rule predict_untrained)

theorem predict_untrained_default_witness:
  "model (DisputeSmlModel_init ''dispute_sml_model.pkl'') = None \<and>
   (Map.empty :: filesystem) (model_path (DisputeSmlModel_init ''dispute_sml_model.pkl'')) = None \<and>
   predict (DisputeSmlModel_init ''dispute_sml_model.pkl'') Map.empty example_case
     = Inr (NotTrained PENDING 0 ''Model not trained yet'',
            DisputeSmlModel_init ''dispute_sml_model.pkl'')"
proof -
  have a: "model (DisputeSmlModel_init ''dispute_sml_model.pkl'') = None"
    by (simp add: DisputeSmlModel_init_def)
  have b: "(Map.empty :: filesystem) (model_path (DisputeSmlModel_init ''dispute_sml_model.pkl''))
             = None"
    by simp
  from a b predict_untrained_default [OF a b] show ?thesis by simp
qed

text \<open>
  The claim as the specification words it asks for the literal rationale
  "model not trained yet"; the string the code returns differs from it in its first letter.
\<close>

theorem predict_untrained_literal_counterexample:
  "predict (DisputeSmlModel_init ''dispute_sml_model.pkl'') Map.empty example_case
     = Inr (NotTrained PENDING 0 ''Model not trained yet'',
            DisputeSmlModel_init ''dispute_sml_model.pkl'') \<and>
   reasoning (NotTrained PENDING 0 ''Model not trained yet'') \<noteq> ''model not trained yet''"
  by (simp add: predict_def load_def DisputeSmlModel_init_def)

section \<open>Threshold split: results\<close>

lemma gain_eq_score:
  "- sum_list (map (\<lambda>(a, p). (a - p)\<^sup>2) (zip r (np_where (left_rows X f t) l rr)))
   = - (\<Sum>(a, b) \<leftarrow> zip r (left_rows X f t). (a - (if b then l else rr))\<^sup>2)"
  by (simp add: np_where_def zip_map2 case_prod_unfold o_def)

lemma try_threshold_eq:
  "try_threshold X r f st t =
     (if splits_rows X (f, t) \<and> exceeds (score X r f t) (fst st)
      then (Some (score X r f t), split_of X r f t) else st)"
  unfolding try_threshold_def Let_def left_rows_def [symmetric] gain_eq_score
    splits_rows_def score_def split_of_def left_mean_of_def right_mean_of_def
  by auto

lemma fit_as_fold:
  "fold (\<lambda>f s. fit_feature X r s f) fs st
   = fold (\<lambda>c s. try_threshold X r (fst c) s (snd c)) (candidates_of X fs) st"
  by (induction fs arbitrary: st) (simp_all add: candidates_of_def fit_feature_def fold_map o_def)

lemma fold_first_max:
  fixes g :: "'c \<Rightarrow> real"
  assumes upd: "\<And>c st. upd c st = (if ok c \<and> exceeds (g c) (fst st) then (Some (g c), v c) else st)"
  shows "((\<forall>c\<in>set cs. \<not> ok c) \<and> fold upd cs (None, s0) = (None, s0)) \<or>
         (\<exists>i<length cs. ok (cs ! i) \<and> fold upd cs (None, s0) = (Some (g (cs ! i)), v (cs ! i)) \<and>
            (\<forall>j<length cs. ok (cs ! j) \<longrightarrow> g (cs ! j) \<le> g (cs ! i) \<and> (g (cs ! j) = g (cs ! i) \<longrightarrow> i \<le> j)))"
proof (induction cs rule: rev_induct)
  case Nil
  then show ?case by simp
next
  case (snoc c cs)
  have step: "fold upd (cs @ [c]) (None, s0) =
      (if ok c \<and> exceeds (g c) (fst (fold upd cs (None, s0))) then (Some (g c), v c)
       else fold upd cs (None, s0))"
    using upd [of c "fold upd cs (None, s0)"] by simp
  from snoc.IH show ?case
  proof
    assume none: "(\<forall>c\<in>set cs. \<not> ok c) \<and> fold upd cs (None, s0) = (None, s0)"
    show ?thesis
    proof (cases "ok c")
      case True
      have "fold upd (cs @ [c]) (None, s0) = (Some (g c), v c)"
        using none True by (simp only: step) simp
      moreover have "\<forall>j<length (cs @ [c]). ok ((cs @ [c]) ! j) \<longrightarrow> j = length cs"
        using none by (auto simp: nth_append less_Suc_eq)
      ultimately have "length cs < length (cs @ [c]) \<and> ok ((cs @ [c]) ! length cs) \<and>
          fold upd (cs @ [c]) (None, s0) = (Some (g ((cs @ [c]) ! length cs)), v ((cs @ [c]) ! length cs)) \<and>
          (\<forall>j<length (cs @ [c]). ok ((cs @ [c]) ! j) \<longrightarrow>
             g ((cs @ [c]) ! j) \<le> g ((cs @ [c]) ! length cs) \<and>
             (g ((cs @ [c]) ! j) = g ((cs @ [c]) ! length cs) \<longrightarrow> length cs \<le> j))"
        using True by auto
      then show ?thesis by blast
    next
      case False
      with none have "fold upd (cs @ [c]) (None, s0) = (None, s0)" by (simp only: step) simp
      with none False show ?thesis by auto
    qed
  next
    assume "\<exists>i<length cs. ok (cs ! i) \<and> fold upd cs (None, s0) = (Some (g (cs ! i)), v (cs ! i)) \<and>
            (\<forall>j<length cs. ok (cs ! j) \<longrightarrow> g (cs ! j) \<le> g (cs ! i) \<and> (g (cs ! j) = g (cs ! i) \<longrightarrow> i \<le> j))"
    then obtain i where i: "i < length cs" "ok (cs ! i)"
        "fold upd cs (None, s0) = (Some (g (cs ! i)), v (cs ! i))"
        and mx: "\<forall>j<length cs. ok (cs ! j) \<longrightarrow> g (cs ! j) \<le> g (cs ! i) \<and> (g (cs ! j) = g (cs ! i) \<longrightarrow> i \<le> j)"
      by blast
    show ?thesis
    proof (cases "ok c \<and> g (cs ! i) < g c")
      case True
      have "fold upd (cs @ [c]) (None, s0) = (Some (g c), v c)"
        using i True by (simp only: step) simp
      moreover have "\<forall>j<length (cs @ [c]). ok ((cs @ [c]) ! j) \<longrightarrow>
             g ((cs @ [c]) ! j) \<le> g c \<and> (g ((cs @ [c]) ! j) = g c \<longrightarrow> length cs \<le> j)"
        using mx True by (fastforce simp: nth_append less_Suc_eq)
      ultimately have "length cs < length (cs @ [c]) \<and> ok ((cs @ [c]) ! length cs) \<and>
          fold upd (cs @ [c]) (None, s0) = (Some (g ((cs @ [c]) ! length cs)), v ((cs @ [c]) ! length cs)) \<and>
          (\<forall>j<length (cs @ [c]). ok ((cs @ [c]) ! j) \<longrightarrow>
             g ((cs @ [c]) ! j) \<le> g ((cs @ [c]) ! length cs) \<and>
             (g ((cs @ [c]) ! j) = g ((cs @ [c]) ! length cs) \<longrightarrow> length cs \<le> j))"
        using True by simp
      then show ?thesis by blast
    next
      case False
      have "fold upd (cs @ [c]) (None, s0) = (Some (g (cs ! i)), v (cs ! i))"
        using i False by (simp only: step) auto
      moreover have "\<forall>j<length (cs @ [c]). ok ((cs @ [c]) ! j) \<longrightarrow>
             g ((cs @ [c]) ! j) \<le> g (cs ! i) \<and> (g ((cs @ [c]) ! j) = g (cs ! i) \<longrightarrow> i \<le> j)"
        using mx False i(1) by (fastforce simp: nth_append less_Suc_eq)
      ultimately have "i < length (cs @ [c]) \<and> ok ((cs @ [c]) ! i) \<and>
          fold upd (cs @ [c]) (None, s0) = (Some (g ((cs @ [c]) ! i)), v ((cs @ [c]) ! i)) \<and>
          (\<forall>j<length (cs @ [c]). ok ((cs @ [c]) ! j) \<longrightarrow>
             g ((cs @ [c]) ! j) \<le> g ((cs @ [c]) ! i) \<and>
             (g ((cs @ [c]) ! j) = g ((cs @ [c]) ! i) \<longrightarrow> i \<le> j))"
        using i by (simp add: nth_append)
      then show ?thesis by blast
    qed
  qed
qed

lemma set_np_unique: "set (np_unique xs) = set xs"
  by (simp add: np_unique_def)


lemma set_candidates_of:
  "set (candidates_of X fs) = {c. fst c \<in> set fs \<and> snd c \<in> set (column X (fst c))}"
  by (auto simp: candidates_of_def set_np_unique)

lemma accepted_iff:
  "accepted X f t \<longleftrightarrow> (f, t) \<in> set (candidates_of X [0..<n_cols X]) \<and> splits_rows X (f, t)"
  by (auto simp: accepted_def set_candidates_of splits_rows_def)




lemma fit_eq_fold:
  "DecisionStump_fit self X r
   = snd (fold (\<lambda>c s. try_threshold X r (fst c) s (snd c)) (candidates_of X [0..<n_cols X]) (None, self))"
  by (simp add: DecisionStump_fit_def fit_as_fold)

lemma fit_cases:
  defines "g \<equiv> \<lambda>X r (c :: nat \<times> real). score X r (fst c) (snd c)"
  shows "((\<forall>c\<in>set (candidates_of X [0..<n_cols X]). \<not> splits_rows X c) \<and> DecisionStump_fit self X r = self) \<or>
     (\<exists>i<length (candidates_of X [0..<n_cols X]).
        splits_rows X (candidates_of X [0..<n_cols X] ! i) \<and>
        DecisionStump_fit self X r
          = split_of X r (fst (candidates_of X [0..<n_cols X] ! i)) (snd (candidates_of X [0..<n_cols X] ! i)) \<and>
        (\<forall>j<length (candidates_of X [0..<n_cols X]).
            splits_rows X (candidates_of X [0..<n_cols X] ! j) \<longrightarrow>
            g X r (candidates_of X [0..<n_cols X] ! j) \<le> g X r (candidates_of X [0..<n_cols X] ! i) \<and>
            (g X r (candidates_of X [0..<n_cols X] ! j) = g X r (candidates_of X [0..<n_cols X] ! i) \<longrightarrow> i \<le> j)))"
proof -
  have upd: "\<And>c st. try_threshold X r (fst c) st (snd c) =
     (if splits_rows X c \<and> exceeds (g X r c) (fst st)
      then (Some (g X r c), split_of X r (fst c) (snd c)) else st)"
    by (simp add: try_threshold_eq g_def)
  from fold_first_max [of "\<lambda>c s. try_threshold X r (fst c) s (snd c)" "splits_rows X" "g X r"
      "\<lambda>c. split_of X r (fst c) (snd c)" "candidates_of X [0..<n_cols X]" self, OF upd]
  show ?thesis
    unfolding fit_eq_fold by (elim disjE exE conjE) (simp, force)
qed

lemma fit_rejected_all:
  assumes "\<And>f t. \<not> accepted X f t"
  shows "DecisionStump_fit self X r = self"
proof -
  have "\<forall>c\<in>set (candidates_of X [0..<n_cols X]). \<not> splits_rows X c"
    using assms by (auto simp: accepted_iff)
  with fit_cases [of X self r] show ?thesis
    by (metis nth_mem)
qed


lemma predict_init_zero:
  assumes "0 < n_cols X"
  shows "DecisionStump_predict DecisionStump_init X = Inr (replicate (length (rows X)) 0)"
  using assms
  by (simp add: DecisionStump_predict_def DecisionStump_init_def column_def map_replicate_const
      o_def cong: if_cong)

text \<open>
  Claim C5. When every candidate (feature, threshold) of a batch is rejected because one
  side of its partition has fewer than two rows, fit leaves the split at its
  zero-initialised default (feature 0, threshold 0, both branch values 0), and predict then
  returns the all-zero vector, one entry per row, on any array that has a column 0.
\<close>

theorem fit_no_candidate_default:
  assumes "\<And>f t. \<not> accepted X f t" and "0 < n_cols X'"
  shows "DecisionStump_fit DecisionStump_init X residuals
           = \<lparr>feature_idx = 0, threshold = 0, left_value = 0, right_value = 0\<rparr> \<and>
         DecisionStump_predict (DecisionStump_fit DecisionStump_init X residuals) X'
           = Inr (replicate (length (rows X')) 0)"
  using fit_rejected_all [of X DecisionStump_init residuals, OF assms(1)]
    predict_init_zero [OF assms(2)]
  by (simp add: DecisionStump_init_def)

lemma tiny_rejected: "\<not> accepted tiny_X f t"
  by (auto simp: accepted_def tiny_X_def column_def left_rows_def count_true_def)

theorem fit_no_candidate_default_witness:
  "(\<forall>f t. \<not> accepted tiny_X f t) \<and> 0 < n_cols tiny_X \<and>
   DecisionStump_fit DecisionStump_init tiny_X tiny_residuals
     = \<lparr>feature_idx = 0, threshold = 0, left_value = 0, right_value = 0\<rparr> \<and>
   DecisionStump_predict (DecisionStump_fit DecisionStump_init tiny_X tiny_residuals) tiny_X
     = Inr [0, 0, 0]"
proof -
  have a: "\<And>f t. \<not> accepted tiny_X f t" by (rule tiny_rejected)
  have b: "0 < n_cols tiny_X" by (simp add: tiny_X_def)
  have c: "replicate (length (rows tiny_X)) (0::real) = [0, 0, 0]"
    by (simp add: tiny_X_def)
  note r = fit_no_candidate_default [of tiny_X tiny_X tiny_residuals, OF a b]
  from r [unfolded c] a b show ?thesis by blast
qed







section \<open>Boosted ensemble: results\<close>

























section \<open>Model manager: the train/test split\<close>

lemma length_masked_le: "length (masked m a) \<le> length a"
proof -
  have "length (filter fst (zip m a)) \<le> length (zip m a)" by (rule length_filter_le)
  then show ?thesis by (simp add: masked_def)
qed

lemma length_masked_same:
  "length (masked (map P (map f xs)) (map g xs)) = length (masked (map P (map f xs)) (map h xs))"
  by (simp only: length_masked_map)









section \<open>Boosted ensemble: the residuals of a round\<close>





























end
